theory Spec2Isabelle
  imports Main "HOL-Library.Word"
begin

section \<open>Geometry: coordinates and directions (rover.h)\<close>

text \<open>
  \<^verbatim>\<open>using coordinate_t = int32_t;\<close>
  A coordinate is a 32-bit machine integer. It is modelled as a \<open>32 word\<close>, read as a
  signed value with \<open>sint\<close>; \<open>+\<close> on words is addition modulo \<open>2 ^ 32\<close>, which is what
  the two's complement addition of the compiled program computes. (The C++ standard
  itself leaves the overflow of a signed addition undefined.)
\<close>

type_synonym coordinate_t = "32 word"

text \<open>
  \<^verbatim>\<open>class Sensor { virtual bool is_safe(coordinate_t, coordinate_t) = 0; };\<close>
  The class is abstract: a sensor is whatever predicate on two coordinates its
  implementation computes. \<open>sensors_t\<close> is the vector of sensors, in order.
\<close>

type_synonym Sensor = "coordinate_t \<Rightarrow> coordinate_t \<Rightarrow> bool"

type_synonym sensors_t = "Sensor list"

text \<open>The two exception classes of the header.\<close>

datatype exn = DangerousField | RoverDidNotLand

text \<open>
  A member function that works on an object passed by reference either returns or
  throws; in both cases the object has a state afterwards. \<open>Returned s\<close> is a normal
  return with the object in state \<open>s\<close>; \<open>Thrown e s\<close> is the exception \<open>e\<close> leaving the
  function, the object being in state \<open>s\<close> at the throw.
\<close>

datatype 'a outcome = Returned 'a | Thrown exn 'a

text \<open>
  \<^verbatim>\<open>class Coordinates { coordinate_t x, y; ... };\<close>
  The members \<open>x\<close> and \<open>y\<close> are the selectors \<open>coord_x\<close> and \<open>coord_y\<close>.
\<close>

datatype Coordinates = Coordinates (coord_x: coordinate_t) (coord_y: coordinate_t)

text \<open>\<^verbatim>\<open>void operator+=(const Coordinates &other) { x += other.x; y += other.y; }\<close>\<close>

fun Coordinates_add :: "Coordinates \<Rightarrow> Coordinates \<Rightarrow> Coordinates" where
  "Coordinates_add (Coordinates x y) (Coordinates ox oy) = Coordinates (x + ox) (y + oy)"

text \<open>\<^verbatim>\<open>bool is_safe(std::shared_ptr<Sensor> sensor) { return sensor->is_safe(x, y); }\<close>\<close>

fun Coordinates_is_safe :: "Coordinates \<Rightarrow> Sensor \<Rightarrow> bool" where
  "Coordinates_is_safe (Coordinates x y) sensor = sensor x y"

text \<open>\<^verbatim>\<open>enum class Direction { NORTH = 0, EAST = 1, SOUTH = 2, WEST = 3 };\<close>\<close>

datatype Direction = NORTH | EAST | SOUTH | WEST

text \<open>\<open>static_cast<int>(d)\<close>: the enumerator's value.\<close>

fun Direction_to_int :: "Direction \<Rightarrow> int" where
  "Direction_to_int NORTH = 0"
| "Direction_to_int EAST = 1"
| "Direction_to_int SOUTH = 2"
| "Direction_to_int WEST = 3"

text \<open>
  \<open>static_cast<Direction>(i)\<close>. The only caller, \<open>get_next\<close>, passes a value already
  reduced modulo 4 (lemma \<open>get_next_index_range\<close> below), so the last branch is taken
  for 3 only.
\<close>

definition Direction_of_int :: "int \<Rightarrow> Direction" where
  "Direction_of_int i =
     (if i = 0 then NORTH else if i = 1 then EAST else if i = 2 then SOUTH else WEST)"

definition DIRECTIONS_NO :: int where
  "DIRECTIONS_NO = 4"

definition direction_move :: "Coordinates list" where
  "direction_move = [Coordinates 0 1, Coordinates 1 0, Coordinates 0 (- 1), Coordinates (- 1) 0]"

definition direction_name :: "string list" where
  "direction_name = [''NORTH'', ''EAST'', ''SOUTH'', ''WEST'']"

text \<open>
  \<^verbatim>\<open>int index = static_cast<int>(d);
  return static_cast<Direction>((index + 1) % DIRECTIONS_NO);\<close>
  The operand of \<open>%\<close> is positive, where C++'s remainder and \<open>mod\<close> agree.
\<close>

definition get_next :: "Direction \<Rightarrow> Direction" where
  "get_next d = (let index = Direction_to_int d in Direction_of_int ((index + 1) mod DIRECTIONS_NO))"

text \<open>\<^verbatim>\<open>return direction_move[static_cast<int>(d)];\<close>\<close>

definition get_move :: "Direction \<Rightarrow> Coordinates" where
  "get_move d = direction_move ! nat (Direction_to_int d)"

text \<open>\<^verbatim>\<open>return direction_name[static_cast<int>(d)];\<close>\<close>

definition get_name :: "Direction \<Rightarrow> string" where
  "get_name d = direction_name ! nat (Direction_to_int d)"

section \<open>Position\<close>

record Position =
  coordinates :: Coordinates
  direction :: Direction

text \<open>\<^verbatim>\<open>void turn_right() { direction = DirectionManager::get_next(direction); }\<close>\<close>

definition turn_right :: "Position \<Rightarrow> Position" where
  "turn_right p = p\<lparr>direction := get_next (direction p)\<rparr>"

text \<open>\<^verbatim>\<open>void go_forward() { coordinates += DirectionManager::get_move(direction); }\<close>\<close>

definition go_forward :: "Position \<Rightarrow> Position" where
  "go_forward p = p\<lparr>coordinates := Coordinates_add (coordinates p) (get_move (direction p))\<rparr>"

text \<open>\<^verbatim>\<open>bool is_safe(std::shared_ptr<Sensor> sensor) { return coordinates.is_safe(std::move(sensor)); }\<close>\<close>

definition Position_is_safe :: "Position \<Rightarrow> Sensor \<Rightarrow> bool" where
  "Position_is_safe p sensor = Coordinates_is_safe (coordinates p) sensor"

section \<open>Actions\<close>

text \<open>
  The subclasses of \<open>Action\<close> defined in the header. A \<open>Compose\<close> holds the vector of
  its children; it is built from actions that exist already, so the structure is a
  finite tree.
\<close>

datatype Action = RotateLeft | RotateRight | MoveForward | MoveBackward | Compose "Action list"

text \<open>
  The loop shared by \<open>MoveForward::execute\<close> and \<open>MoveBackward::execute\<close>:
  \<^verbatim>\<open>for (const auto &sensor : sensors) {
      if (!new_position.is_safe(sensor))
          throw DangerousField();
  }\<close>
  \<open>Some e\<close> is the exception thrown, \<open>None\<close> the loop running to its end.
\<close>

fun check_sensors :: "Position \<Rightarrow> sensors_t \<Rightarrow> exn option" where
  "check_sensors new_position [] = None"
| "check_sensors new_position (sensor # sensors) =
     (if \<not> Position_is_safe new_position sensor then Some DangerousField
      else check_sensors new_position sensors)"

text \<open>
  \<open>execute(Position &p, const sensors_t &sensors)\<close> of each class. The moves work on
  the copy \<open>new_position\<close> and assign it to \<open>p\<close> after the loop only; \<open>Compose\<close> runs
  its children on \<open>p\<close> itself, and an exception of a child leaves the loop at once.
\<close>

fun Action_execute :: "Action \<Rightarrow> Position \<Rightarrow> sensors_t \<Rightarrow> Position outcome"
  and Compose_loop :: "Action list \<Rightarrow> Position \<Rightarrow> sensors_t \<Rightarrow> Position outcome" where
  "Action_execute RotateLeft p sensors = Returned (turn_right (turn_right (turn_right p)))"
| "Action_execute RotateRight p sensors = Returned (turn_right p)"
| "Action_execute MoveForward p sensors =
     (let new_position = go_forward p in
      case check_sensors new_position sensors of
        Some e \<Rightarrow> Thrown e p
      | None \<Rightarrow> Returned new_position)"
| "Action_execute MoveBackward p sensors =
     (let new_position = turn_right (turn_right (go_forward (turn_right (turn_right p)))) in
      case check_sensors new_position sensors of
        Some e \<Rightarrow> Thrown e p
      | None \<Rightarrow> Returned new_position)"
| "Action_execute (Compose actions) p sensors = Compose_loop actions p sensors"
| "Compose_loop [] p sensors = Returned p"
| "Compose_loop (action # actions) p sensors =
     (case Action_execute action p sensors of
        Thrown e p' \<Rightarrow> Thrown e p'
      | Returned p' \<Rightarrow> Compose_loop actions p' sensors)"

section \<open>Rover\<close>

type_synonym command_name_t = char

text \<open>
  \<^verbatim>\<open>using commands_t = std::map<command_name_t, std::shared_ptr<Action>>;\<close>
  A key of the map is bound to an action; a binding to a null pointer is not modelled.
\<close>

type_synonym commands_t = "command_name_t \<rightharpoonup> Action"

record Rover =
  landed :: bool
  stopped :: bool
  position :: Position
  commands :: commands_t
  sensors :: sensors_t

text \<open>
  The constructor:
  \<^verbatim>\<open>bool landed = false; bool stopped = false;
  Rover(commands_t commands_, sensors_t sensors_) :
      position({0, 0}, Direction::NORTH), commands(...), sensors(...) {}\<close>
\<close>

definition Rover_new :: "commands_t \<Rightarrow> sensors_t \<Rightarrow> Rover" where
  "Rover_new commands' sensors' =
     \<lparr>landed = False, stopped = False,
      position = \<lparr>coordinates = Coordinates 0 0, direction = NORTH\<rparr>,
      commands = commands', sensors = sensors'\<rparr>"

text \<open>
  The body of the \<open>try\<close> block of \<open>Rover::execute\<close>:
  \<^verbatim>\<open>for (const auto &command : command_list) {
      if (commands.count(command) == 0) { stopped = true; break; }
      commands[command]->execute(position, sensors);
  }\<close>
  An exception of the action leaves the loop with the rover's position as the action
  left it, since the action works on the member \<open>position\<close> by reference.
\<close>

fun execute_loop :: "Rover \<Rightarrow> string \<Rightarrow> Rover outcome" where
  "execute_loop r [] = Returned r"
| "execute_loop r (command # command_list) =
     (case commands r command of
        None \<Rightarrow> Returned (r\<lparr>stopped := True\<rparr>)
      | Some action \<Rightarrow>
          (case Action_execute action (position r) (sensors r) of
             Thrown e p \<Rightarrow> Thrown e (r\<lparr>position := p\<rparr>)
           | Returned p \<Rightarrow> execute_loop (r\<lparr>position := p\<rparr>) command_list))"

text \<open>
  \<^verbatim>\<open>void execute(std::string command_list) {
      if (landed) {
          stopped = false;
          try { ... } catch (DangerousField& e) { stopped = true; }
      } else { throw RoverDidNotLand(); }
  }\<close>
  The handler catches \<open>DangerousField\<close> only; any other exception goes on to the
  caller.
\<close>

definition Rover_execute :: "Rover \<Rightarrow> string \<Rightarrow> Rover outcome" where
  "Rover_execute r command_list =
     (if landed r then
        (case execute_loop (r\<lparr>stopped := False\<rparr>) command_list of
           Returned r' \<Rightarrow> Returned r'
         | Thrown e r' \<Rightarrow>
             (if e = DangerousField then Returned (r'\<lparr>stopped := True\<rparr>) else Thrown e r'))
      else Thrown RoverDidNotLand r)"

text \<open>
  \<^verbatim>\<open>void land(const Coordinates coordinates, const Direction direction) {
      position = {coordinates, direction}; landed = true; stopped = false;
  }\<close>
\<close>

definition Rover_land :: "Rover \<Rightarrow> Coordinates \<Rightarrow> Direction \<Rightarrow> Rover" where
  "Rover_land r coordinates' direction' =
     r\<lparr>position := \<lparr>coordinates = coordinates', direction = direction'\<rparr>,
       landed := True, stopped := False\<rparr>"

section \<open>Display\<close>

text \<open>
  An output stream is the text written to it so far. \<open>decimal_int\<close> is what
  \<open>operator<<\<close> of the standard library writes for an integer on a stream with its
  default flags: the decimal digits, after a minus sign for a negative value.
\<close>

type_synonym ostream = string

definition digit_char :: "nat \<Rightarrow> char" where
  "digit_char n = ''0123456789'' ! n"

fun decimal_nat :: "nat \<Rightarrow> string" where
  "decimal_nat n =
     (if n < 10 then [digit_char n] else decimal_nat (n div 10) @ [digit_char (n mod 10)])"

declare decimal_nat.simps [simp del]

definition decimal_int :: "int \<Rightarrow> string" where
  "decimal_int i = (if i < 0 then CHR ''-'' # decimal_nat (nat (- i)) else decimal_nat (nat i))"

definition put_string :: "ostream \<Rightarrow> string \<Rightarrow> ostream" where
  "put_string os s = os @ s"

definition put_coordinate :: "ostream \<Rightarrow> coordinate_t \<Rightarrow> ostream" where
  "put_coordinate os v = os @ decimal_int (sint v)"

text \<open>\<^verbatim>\<open>os << "(" << coordinates.x << ", " << coordinates.y << ")";\<close>\<close>

fun Coordinates_print :: "ostream \<Rightarrow> Coordinates \<Rightarrow> ostream" where
  "Coordinates_print os (Coordinates x y) =
     put_string (put_coordinate (put_string (put_coordinate (put_string os ''('') x) '', '') y) '')''"

text \<open>\<^verbatim>\<open>os << position.coordinates << " " << DirectionManager::get_name(position.direction);\<close>\<close>

definition Position_print :: "ostream \<Rightarrow> Position \<Rightarrow> ostream" where
  "Position_print os p =
     put_string (put_string (Coordinates_print os (coordinates p)) '' '') (get_name (direction p))"

text \<open>
  \<^verbatim>\<open>if (!rover.landed) { os << "unknown"; }
  else { os << rover.position; if (rover.stopped) os << " stopped"; }\<close>
  The rover is a \<open>const\<close> reference: printing changes the stream only.
\<close>

definition Rover_print :: "ostream \<Rightarrow> Rover \<Rightarrow> ostream" where
  "Rover_print os rover =
     (if \<not> landed rover then put_string os ''unknown''
      else
        (let os1 = Position_print os (position rover) in
         if stopped rover then put_string os1 '' stopped'' else os1))"

text \<open>
  rover_example.cc:
  \<^verbatim>\<open>std::stringstream s; s << rover; return s.str();\<close>
\<close>

definition get_string_in_ostream :: "Rover \<Rightarrow> string" where
  "get_string_in_ostream rover = Rover_print [] rover"

section \<open>Sequences of calls\<close>

text \<open>
  The public member functions that change a rover are \<open>land\<close> and \<open>execute\<close>. A
  caller may catch the exception of a call and go on using the rover, as \<open>main\<close> in
  rover_example.cc does; \<open>state_after\<close> is the rover such a caller holds after the
  call, and \<open>Rover_calls\<close> its state after a sequence of calls.
\<close>

datatype call = is_Land: Land Coordinates Direction | is_Execute: Execute string

fun state_after :: "'a outcome \<Rightarrow> 'a" where
  "state_after (Returned s) = s"
| "state_after (Thrown e s) = s"

fun Rover_call :: "Rover \<Rightarrow> call \<Rightarrow> Rover outcome" where
  "Rover_call r (Land c d) = Returned (Rover_land r c d)"
| "Rover_call r (Execute command_list) = Rover_execute r command_list"

fun Rover_calls :: "Rover \<Rightarrow> call list \<Rightarrow> Rover" where
  "Rover_calls r [] = r"
| "Rover_calls r (c # cs) = Rover_calls (state_after (Rover_call r c)) cs"

section \<open>The example program (rover_example.cc)\<close>

definition TrueSensor :: Sensor where
  "TrueSensor x y = True"

definition FalseSensor :: Sensor where
  "FalseSensor x y = False"

text \<open>
  \<^verbatim>\<open>RoverBuilder().program_command('F', move_forward()).program_command('B', move_backward())
      .program_command('R', rotate_right()).program_command('L', rotate_left())
      .program_command('U', compose({rotate_right(), rotate_right()}))
      .add_sensor(std::make_unique<TrueSensor>()).add_sensor(std::make_unique<TrueSensor>())
      .build();\<close>
\<close>

definition example_rover :: Rover where
  "example_rover = Rover_new
     [CHR ''F'' \<mapsto> MoveForward, CHR ''B'' \<mapsto> MoveBackward, CHR ''R'' \<mapsto> RotateRight,
      CHR ''L'' \<mapsto> RotateLeft, CHR ''U'' \<mapsto> Compose [RotateRight, RotateRight]]
     [TrueSensor, TrueSensor]"

definition broken_rover :: Rover where
  "broken_rover = Rover_new [CHR ''X'' \<mapsto> MoveForward] [FalseSensor]"

text \<open>A sensor that reports every field with \<open>x = 2\<close> as dangerous.\<close>

definition unsafe_at_2 :: Sensor where
  "unsafe_at_2 x y = (x \<noteq> 2)"

text \<open>
  A rover for the cases below: \<open>F\<close> moves forward, \<open>U\<close> moves forward twice, the
  fields with \<open>x = 2\<close> are dangerous, and the rover has landed at \<open>(-1, 0) EAST\<close>.
\<close>

definition tandem_rover :: Rover where
  "tandem_rover =
     Rover_land
       (Rover_new [CHR ''F'' \<mapsto> MoveForward, CHR ''U'' \<mapsto> Compose [MoveForward, MoveForward]]
          [unsafe_at_2])
       (Coordinates (- 1) 0) EAST"

section \<open>The contract of MoveBackward, in the words of the specification\<close>

text \<open>
  The specification describes \<open>MoveBackward\<close> as "translate by the negated unit
  vector of the current heading, heading unchanged", after the check of the sensors
  at the new coordinate. These definitions follow that sentence, not the code; the
  code's derivation is compared with them below.
\<close>

fun Coordinates_negate :: "Coordinates \<Rightarrow> Coordinates" where
  "Coordinates_negate (Coordinates x y) = Coordinates (- x) (- y)"

definition translate_back :: "Position \<Rightarrow> Position" where
  "translate_back p =
     p\<lparr>coordinates := Coordinates_add (coordinates p) (Coordinates_negate (get_move (direction p)))\<rparr>"

definition MoveBackward_contract :: "Position \<Rightarrow> sensors_t \<Rightarrow> Position outcome" where
  "MoveBackward_contract p ss =
     (let candidate = translate_back p in
      if list_all (Position_is_safe candidate) ss then Returned candidate
      else Thrown DangerousField p)"

section \<open>Basic facts\<close>

lemma get_next_index_range:
  "0 \<le> (Direction_to_int d + 1) mod DIRECTIONS_NO \<and> (Direction_to_int d + 1) mod DIRECTIONS_NO < 4"
  by (simp add: DIRECTIONS_NO_def)

lemma get_next_simps [simp]:
  "get_next NORTH = EAST" "get_next EAST = SOUTH" "get_next SOUTH = WEST" "get_next WEST = NORTH"
  by (simp_all add: get_next_def Direction_of_int_def DIRECTIONS_NO_def)

lemma get_move_simps [simp]:
  "get_move NORTH = Coordinates 0 1" "get_move EAST = Coordinates 1 0"
  "get_move SOUTH = Coordinates 0 (- 1)" "get_move WEST = Coordinates (- 1) 0"
  by (simp_all add: get_move_def direction_move_def)

lemma get_name_simps [simp]:
  "get_name NORTH = ''NORTH''" "get_name EAST = ''EAST''"
  "get_name SOUTH = ''SOUTH''" "get_name WEST = ''WEST''"
  by (simp_all add: get_name_def direction_name_def)

lemma decimal_nat_digit: "n < 10 \<Longrightarrow> decimal_nat n = [digit_char n]"
  by (simp add: decimal_nat.simps)

lemma decimal_nat_small [simp]:
  "decimal_nat 0 = ''0''" "decimal_nat (Suc 0) = ''1''" "decimal_nat 1 = ''1''"
  "decimal_nat 2 = ''2''" "decimal_nat 3 = ''3''"
  by (simp_all add: decimal_nat_digit digit_char_def)

lemmas print_defs = get_string_in_ostream_def Rover_print_def Position_print_def
  put_string_def put_coordinate_def decimal_int_def

lemmas run_defs = Rover_new_def Rover_land_def Rover_execute_def
  turn_right_def go_forward_def Position_is_safe_def

subsection \<open>Turns and the sensor loop\<close>

lemma turn_right_four: "turn_right (turn_right (turn_right (turn_right p))) = p"
  by (cases "direction p") (simp_all add: turn_right_def)

lemma turn_right_coordinates: "coordinates (turn_right p) = coordinates p"
  by (simp add: turn_right_def)

lemma check_sensors_all:
  "check_sensors np ss = (if list_all (Position_is_safe np) ss then None else Some DangerousField)"
  by (induction ss) simp_all

lemma Position_is_safe_eq:
  "Position_is_safe np s = s (coord_x (coordinates np)) (coord_y (coordinates np))"
  by (cases "coordinates np") (simp add: Position_is_safe_def)

lemma check_sensors_Some: "check_sensors np ss = Some e \<Longrightarrow> e = DangerousField"
  by (induction ss) (auto split: if_splits)

lemma move_outcome:
  "(case check_sensors np ss of Some e \<Rightarrow> Thrown e p | None \<Rightarrow> Returned np) =
     (if \<forall>s \<in> set ss. s (coord_x (coordinates np)) (coord_y (coordinates np))
      then Returned np else Thrown DangerousField p)"
  by (simp add: check_sensors_all list_all_iff Position_is_safe_eq)

lemma backward_candidate:
  "turn_right (turn_right (go_forward (turn_right (turn_right p)))) = translate_back p"
  by (cases "direction p") (simp_all add: turn_right_def go_forward_def translate_back_def)

lemma sint_add_wraps: "sint ((a::32 word) + b) = (sint a + sint b + 2 ^ 31) mod 2 ^ 32 - 2 ^ 31"
  by (simp add: sint_word_ariths signed_take_bit_eq_take_bit_shift take_bit_eq_mod)

subsection \<open>What execute and printing leave alone\<close>

lemma execute_loop_fields:
  "landed (state_after (execute_loop r cl)) = landed r
   \<and> commands (state_after (execute_loop r cl)) = commands r
   \<and> sensors (state_after (execute_loop r cl)) = sensors r"
  by (induction cl arbitrary: r) (simp_all split: option.split outcome.split)

lemma Rover_execute_fields:
  "landed (state_after (Rover_execute r cl)) = landed r
   \<and> commands (state_after (Rover_execute r cl)) = commands r
   \<and> sensors (state_after (Rover_execute r cl)) = sensors r"
proof (cases "execute_loop (r\<lparr>stopped := False\<rparr>) cl")
  case (Returned r')
  with execute_loop_fields [of "r\<lparr>stopped := False\<rparr>" cl] show ?thesis
    by (simp add: Rover_execute_def)
next
  case (Thrown e r')
  with execute_loop_fields [of "r\<lparr>stopped := False\<rparr>" cl] show ?thesis
    by (simp add: Rover_execute_def)
qed

lemma Rover_call_landed: "landed (state_after (Rover_call r c)) = (landed r \<or> is_Land c)"
  by (cases c) (simp_all add: Rover_land_def Rover_execute_fields)

lemma Rover_calls_landed: "landed (Rover_calls r calls) = (landed r \<or> (\<exists>c \<in> set calls. is_Land c))"
  by (induction calls arbitrary: r) (auto simp: Rover_call_landed)

lemma Rover_print_eq:
  "Rover_print os r = os @
     (if \<not> landed r then ''unknown''
      else ''('' @ decimal_int (sint (coord_x (coordinates (position r)))) @ '', ''
           @ decimal_int (sint (coord_y (coordinates (position r)))) @ '') ''
           @ get_name (direction (position r))
           @ (if stopped r then '' stopped'' else []))"
  by (cases "coordinates (position r)")
     (simp add: Rover_print_def Position_print_def put_string_def put_coordinate_def)

lemma unknown_iff: "get_string_in_ostream r = ''unknown'' \<longleftrightarrow> \<not> landed r"
  by (simp add: get_string_in_ostream_def Rover_print_eq)

lemma never_landed:
  "list_all is_Execute calls \<Longrightarrow> Rover_calls (Rover_new cmds sens) calls = Rover_new cmds sens"
proof (induction calls)
  case Nil
  show ?case by simp
next
  case (Cons c calls)
  then obtain s where c: "c = Execute s" by (cases c) simp_all
  have "Rover_execute (Rover_new cmds sens) s = Thrown RoverDidNotLand (Rover_new cmds sens)"
    by (simp add: Rover_execute_def Rover_new_def)
  with Cons c show ?case by simp
qed

subsection \<open>Exceptions of the actions and the two loops\<close>

text \<open>
  The actions throw nothing but \<open>DangerousField\<close>, a rotation or a move that throws
  has not changed the position, and each loop over a list that is split in two runs
  the second part from where the first part ended, unless the first part ended the
  loop.
\<close>

lemma throws_DangerousField:
  "Action_execute a p ss = Thrown e q \<Longrightarrow> e = DangerousField"
  "Compose_loop as p ss = Thrown e q \<Longrightarrow> e = DangerousField"
proof (induction a p ss and as p ss arbitrary: q and q rule: Action_execute_Compose_loop.induct)
  case (3 p ss)
  then show ?case
    by (auto simp: Let_def split: option.splits dest: check_sensors_Some)
next
  case (4 p ss)
  then show ?case
    by (auto simp: Let_def split: option.splits dest: check_sensors_Some)
next
  case (7 a as p ss)
  then show ?case
    by (auto split: outcome.splits)
qed simp_all

lemma leaf_throw_unchanged:
  "a \<in> {RotateLeft, RotateRight, MoveForward, MoveBackward} \<Longrightarrow>
   Action_execute a p ss = Thrown e q \<Longrightarrow> q = p"
  by (auto simp: Let_def split: option.splits)


lemma execute_loop_throws: "execute_loop r cl = Thrown e r' \<Longrightarrow> e = DangerousField"
  by (induction cl arbitrary: r)
     (auto split: option.splits outcome.splits dest: throws_DangerousField(1))

lemma execute_loop_append:
  "\<not> stopped r \<Longrightarrow>
   execute_loop r (xs @ ys) =
     (case execute_loop r xs of
        Returned r1 \<Rightarrow> (if stopped r1 then Returned r1 else execute_loop r1 ys)
      | Thrown e r1 \<Rightarrow> Thrown e r1)"
  by (induction xs arbitrary: r) (simp_all split: option.split outcome.split)

lemma Rover_execute_running:
  assumes "landed r"
  shows "(Rover_execute r pre = Returned r1 \<and> \<not> stopped r1)
         = (execute_loop (r\<lparr>stopped := False\<rparr>) pre = Returned r1 \<and> \<not> stopped r1)"
  using assms
  by (cases "execute_loop (r\<lparr>stopped := False\<rparr>) pre") (auto simp: Rover_execute_def)

lemma Rover_execute_returns:
  assumes "landed r"
  shows "\<exists>r'. Rover_execute r cl = Returned r' \<and> landed r'
           \<and> commands r' = commands r \<and> sensors r' = sensors r"
proof (cases "Rover_execute r cl")
  case (Returned r')
  with Rover_execute_fields [of r cl] assms show ?thesis by simp
next
  case (Thrown e r')
  with assms have False
    by (cases "execute_loop (r\<lparr>stopped := False\<rparr>) cl")
       (auto simp: Rover_execute_def split: if_splits dest: execute_loop_throws)
  then show ?thesis ..
qed

lemma Rover_execute_step:
  assumes l: "landed r" and pre: "Rover_execute r pre = Returned r1" and run: "\<not> stopped r1"
  shows "Rover_execute r (pre @ cs) =
     (case execute_loop r1 cs of
        Returned r' \<Rightarrow> Returned r'
      | Thrown e r' \<Rightarrow> (if e = DangerousField then Returned (r'\<lparr>stopped := True\<rparr>) else Thrown e r'))"
proof -
  from pre run Rover_execute_running [OF l, of pre r1]
  have "execute_loop (r\<lparr>stopped := False\<rparr>) pre = Returned r1"
    by blast
  with run have "execute_loop (r\<lparr>stopped := False\<rparr>) (pre @ cs) = execute_loop r1 cs"
    by (simp add: execute_loop_append)
  with l show ?thesis by (simp add: Rover_execute_def)
qed

lemma Rover_execute_same_tables:
  assumes "Rover_execute r pre = Returned r1"
  shows "commands r1 = commands r \<and> sensors r1 = sensors r"
  using Rover_execute_fields [of r pre] assms by simp

lemma execute_loop_halts:
  "\<not> stopped r \<Longrightarrow>
   (\<exists>r'. execute_loop r cl = Returned r' \<and> \<not> stopped r')
   \<or> (\<exists>pre c rest r1. cl = pre @ c # rest \<and> execute_loop r pre = Returned r1 \<and> \<not> stopped r1
         \<and> (commands r c = None
              \<or> (\<exists>a q. commands r c = Some a
                    \<and> Action_execute a (position r1) (sensors r) = Thrown DangerousField q)))"
proof (induction cl arbitrary: r)
  case Nil
  then show ?case by simp
next
  case (Cons x xs)
  show ?case
  proof (cases "commands r x")
    case None
    with Cons.prems have "x # xs = [] @ x # xs \<and> execute_loop r [] = Returned r \<and> \<not> stopped r
        \<and> commands r x = None"
      by simp
    then show ?thesis by blast
  next
    case (Some a)
    show ?thesis
    proof (cases "Action_execute a (position r) (sensors r)")
      case (Thrown e q)
      then have "e = DangerousField" by (rule throws_DangerousField(1))
      with Thrown Some Cons.prems
      have "x # xs = [] @ x # xs \<and> execute_loop r [] = Returned r \<and> \<not> stopped r
          \<and> commands r x = Some a
          \<and> Action_execute a (position r) (sensors r) = Thrown DangerousField q"
        by simp
      then show ?thesis by blast
    next
      case (Returned p)
      let ?r2 = "r\<lparr>position := p\<rparr>"
      from Some Returned have step: "\<And>ys. execute_loop r (x # ys) = execute_loop ?r2 ys"
        by simp
      from Cons.prems have "\<not> stopped ?r2" by simp
      from Cons.IH [OF this] show ?thesis
      proof
        assume "\<exists>r'. execute_loop ?r2 xs = Returned r' \<and> \<not> stopped r'"
        then show ?thesis by (simp only: step) blast
      next
        assume "\<exists>pre c rest r1. xs = pre @ c # rest \<and> execute_loop ?r2 pre = Returned r1
            \<and> \<not> stopped r1
            \<and> (commands ?r2 c = None
                \<or> (\<exists>a q. commands ?r2 c = Some a
                      \<and> Action_execute a (position r1) (sensors ?r2) = Thrown DangerousField q))"
        then obtain pre c rest r1 where
          xs: "xs = pre @ c # rest" and pre: "execute_loop ?r2 pre = Returned r1"
          and run: "\<not> stopped r1"
          and halt: "commands r c = None
                \<or> (\<exists>a q. commands r c = Some a
                      \<and> Action_execute a (position r1) (sensors r) = Thrown DangerousField q)"
          by auto
        from xs have "x # xs = (x # pre) @ c # rest" by simp
        moreover from pre have "execute_loop r (x # pre) = Returned r1" by (simp only: step)
        ultimately show ?thesis using run halt by blast
      qed
    qed
  qed
qed

lemmas tandem_defs = tandem_rover_def unsafe_at_2_def run_defs

section \<open>The assertions of the example program\<close>

text \<open>The assertions of \<open>main\<close> in rover_example.cc hold in the model, in their order.\<close>

lemma example_unknown: "get_string_in_ostream example_rover = ''unknown''"
  by (simp add: example_rover_def run_defs print_defs)

lemma example_execute_before_land:
  "Rover_execute example_rover ''F'' = Thrown RoverDidNotLand example_rover"
  by (simp add: example_rover_def run_defs)

lemma example_land:
  "get_string_in_ostream
     (Rover_calls example_rover [Execute ''F'', Land (Coordinates 0 0) EAST]) = ''(0, 0) EAST''"
  by (simp add: example_rover_def TrueSensor_def run_defs print_defs)

lemma example_FFBRLU:
  "get_string_in_ostream
     (Rover_calls example_rover [Execute ''F'', Land (Coordinates 0 0) EAST, Execute ''FFBRLU''])
   = ''(1, 0) WEST''"
  by (simp add: example_rover_def TrueSensor_def run_defs print_defs)

lemma example_FXFFF:
  "get_string_in_ostream
     (Rover_calls example_rover
        [Execute ''F'', Land (Coordinates 0 0) EAST, Execute ''FFBRLU'', Execute ''FXFFF''])
   = ''(0, 0) WEST stopped''"
  by (simp add: example_rover_def TrueSensor_def run_defs print_defs)

lemma example_FFF:
  "get_string_in_ostream
     (Rover_calls example_rover
        [Execute ''F'', Land (Coordinates 0 0) EAST, Execute ''FFBRLU'', Execute ''FXFFF'',
         Execute ''FFF''])
   = ''(-3, 0) WEST''"
  by (simp add: example_rover_def TrueSensor_def run_defs print_defs)

lemma example_broken:
  "get_string_in_ostream
     (Rover_calls broken_rover [Land (Coordinates (- 1) (- 1)) WEST, Execute ''X''])
   = ''(-1, -1) WEST stopped''"
  by (simp add: broken_rover_def FalseSensor_def run_defs print_defs)

section \<open>Properties of the geometry\<close>

text \<open>
  Claim C6. For each of the four directions, four applications of the successor
  \<open>get_next\<close> give the direction back, and the successor is the cycle
  NORTH, EAST, SOUTH, WEST, NORTH on a type that has these four values and no other.
\<close>

theorem get_next_cycle:
  "get_next (get_next (get_next (get_next d))) = d
   \<and> get_next NORTH = EAST \<and> get_next EAST = SOUTH
   \<and> get_next SOUTH = WEST \<and> get_next WEST = NORTH
   \<and> (UNIV :: Direction set) = {NORTH, EAST, SOUTH, WEST}"
proof -
  have cyc: "get_next (get_next (get_next (get_next d))) = d"
    by (cases d) simp_all
  have univ: "(UNIV :: Direction set) = {NORTH, EAST, SOUTH, WEST}"
  proof
    show "(UNIV :: Direction set) \<subseteq> {NORTH, EAST, SOUTH, WEST}"
    proof
      fix e :: Direction
      show "e \<in> {NORTH, EAST, SOUTH, WEST}" by (cases e) simp_all
    qed
  qed simp
  from cyc univ show ?thesis by simp
qed

text \<open>
  Claim C9. \<open>Coordinates::operator+=\<close> adds componentwise and has no failure case;
  read as signed 32-bit values, each component of the result is the sum of the
  components, wrapped around modulo \<open>2 ^ 32\<close> into the range from \<open>- 2 ^ 31\<close> up to
  \<open>2 ^ 31 - 1\<close>.
\<close>

theorem Coordinates_add_wraps:
  "Coordinates_add c d = Coordinates (coord_x c + coord_x d) (coord_y c + coord_y d)
   \<and> sint (coord_x (Coordinates_add c d))
       = (sint (coord_x c) + sint (coord_x d) + 2 ^ 31) mod 2 ^ 32 - 2 ^ 31
   \<and> sint (coord_y (Coordinates_add c d))
       = (sint (coord_y c) + sint (coord_y d) + 2 ^ 31) mod 2 ^ 32 - 2 ^ 31"
proof -
  have eq: "Coordinates_add c d = Coordinates (coord_x c + coord_x d) (coord_y c + coord_y d)"
    by (cases c; cases d) simp
  show ?thesis
    unfolding eq by (simp add: sint_add_wraps)
qed

section \<open>Properties of the actions\<close>

text \<open>
  Claim C7. \<open>RotateLeft\<close> followed by \<open>RotateRight\<close>, and \<open>RotateRight\<close> followed by
  \<open>RotateLeft\<close>, give the starting position back. Each rotation returns normally for
  every position and every list of sensors, and leaves the coordinates as they were.
\<close>

theorem rotations_inverse:
  "(case Action_execute RotateLeft p ss of
      Returned p1 \<Rightarrow> coordinates p1 = coordinates p \<and> Action_execute RotateRight p1 ss = Returned p
    | Thrown e p1 \<Rightarrow> False)
   \<and> (case Action_execute RotateRight p ss of
      Returned p1 \<Rightarrow> coordinates p1 = coordinates p \<and> Action_execute RotateLeft p1 ss = Returned p
    | Thrown e p1 \<Rightarrow> False)"
  by (simp add: turn_right_four turn_right_coordinates)

text \<open>
  Claim C2. \<open>MoveForward\<close> and \<open>MoveBackward\<close> compute the candidate position apart
  from \<open>p\<close> and ask every sensor of the list about the candidate's coordinates. When
  all sensors report the field safe, \<open>p\<close> becomes the candidate; otherwise the action
  throws \<open>DangerousField\<close> and \<open>p\<close> is what it was, coordinates and direction.
\<close>

theorem moves_atomic:
  "Action_execute MoveForward p ss =
     (if \<forall>s \<in> set ss. s (coord_x (coordinates (go_forward p))) (coord_y (coordinates (go_forward p)))
      then Returned (go_forward p) else Thrown DangerousField p)
   \<and> Action_execute MoveBackward p ss =
     (if \<forall>s \<in> set ss.
           s (coord_x (coordinates (turn_right (turn_right (go_forward (turn_right (turn_right p)))))))
             (coord_y (coordinates (turn_right (turn_right (go_forward (turn_right (turn_right p)))))))
      then Returned (turn_right (turn_right (go_forward (turn_right (turn_right p)))))
      else Thrown DangerousField p)"
proof (rule conjI)
  show "Action_execute MoveForward p ss =
     (if \<forall>s \<in> set ss. s (coord_x (coordinates (go_forward p))) (coord_y (coordinates (go_forward p)))
      then Returned (go_forward p) else Thrown DangerousField p)"
    by (simp only: Action_execute.simps Let_def move_outcome)
next
  show "Action_execute MoveBackward p ss =
     (if \<forall>s \<in> set ss.
           s (coord_x (coordinates (turn_right (turn_right (go_forward (turn_right (turn_right p)))))))
             (coord_y (coordinates (turn_right (turn_right (go_forward (turn_right (turn_right p)))))))
      then Returned (turn_right (turn_right (go_forward (turn_right (turn_right p)))))
      else Thrown DangerousField p)"
    by (simp only: Action_execute.simps Let_def move_outcome)
qed

theorem moves_atomic_witness:
  "Action_execute MoveForward \<lparr>coordinates = Coordinates 1 0, direction = EAST\<rparr> [TrueSensor, unsafe_at_2]
     = Thrown DangerousField \<lparr>coordinates = Coordinates 1 0, direction = EAST\<rparr>
   \<and> Action_execute MoveBackward \<lparr>coordinates = Coordinates 1 0, direction = EAST\<rparr> [TrueSensor, unsafe_at_2]
     = Returned \<lparr>coordinates = Coordinates 0 0, direction = EAST\<rparr>"
  using moves_atomic [of "\<lparr>coordinates = Coordinates 1 0, direction = EAST\<rparr>" "[TrueSensor, unsafe_at_2]"]
  by (simp add: TrueSensor_def unsafe_at_2_def go_forward_def turn_right_def)

text \<open>
  Claim C5. The candidate that \<open>MoveBackward\<close> derives by two turns, a step forward
  and two more turns is the position translated by the negated unit vector of the
  heading, with the heading unchanged; the sensors are therefore asked about that
  coordinate, and the action agrees with the contract on success and on failure.
\<close>

theorem MoveBackward_meets_contract:
  "turn_right (turn_right (go_forward (turn_right (turn_right p)))) = translate_back p
   \<and> direction (translate_back p) = direction p
   \<and> Action_execute MoveBackward p ss = MoveBackward_contract p ss"
  by (simp add: Let_def backward_candidate MoveBackward_contract_def check_sensors_all translate_back_def)




section \<open>Properties of the rover\<close>

text \<open>
  Claim C1, as the code has it. On a landed rover \<open>execute\<close> returns normally for
  every command string and leaves the rover landed, with its commands and sensors.
  It starts from \<open>stopped = false\<close>. As long as the characters read so far were bound
  and their actions succeeded (\<open>execute\<close> of the prefix returns with \<open>stopped\<close> false),
  the next character is handled as follows: a successful action gives the rover its
  new position; a character with no binding sets \<open>stopped\<close> and ends the call, with
  the position of the prefix, whatever characters follow; an action that throws
  \<open>DangerousField\<close> sets \<open>stopped\<close> and ends the call, whatever characters follow,
  with the position as the action left it. That is the position of the prefix when
  the action is a rotation or a move; a \<open>Compose\<close> leaves behind what its children did
  before the failure. The rover ends stopped only when the string has such a halting
  character, so when every action succeeds \<open>stopped\<close> is false at the end.
\<close>

theorem Rover_execute_landed:
  "landed r \<Longrightarrow>
   (\<exists>r'. Rover_execute r cl = Returned r' \<and> landed r'
       \<and> commands r' = commands r \<and> sensors r' = sensors r
       \<and> (\<not> stopped r'
           \<or> (\<exists>pre c rest r_pre. cl = pre @ c # rest \<and> Rover_execute r pre = Returned r_pre
                 \<and> \<not> stopped r_pre
                 \<and> (commands r c = None
                      \<or> (\<exists>a q. commands r c = Some a
                            \<and> Action_execute a (position r_pre) (sensors r) = Thrown DangerousField q)))))
   \<and> Rover_execute r [] = Returned (r\<lparr>stopped := False\<rparr>)
   \<and> (Rover_execute r pre = Returned r_pre \<and> \<not> stopped r_pre \<and> commands r c = Some a
        \<and> Action_execute a (position r_pre) (sensors r) = Returned p_new
        \<longrightarrow> Rover_execute r (pre @ [c]) = Returned (r_pre\<lparr>position := p_new\<rparr>))
   \<and> (Rover_execute r pre = Returned r_pre \<and> \<not> stopped r_pre \<and> commands r c = None
        \<longrightarrow> Rover_execute r (pre @ c # rest) = Returned (r_pre\<lparr>stopped := True\<rparr>))
   \<and> (Rover_execute r pre = Returned r_pre \<and> \<not> stopped r_pre \<and> commands r c = Some a
        \<and> Action_execute a (position r_pre) (sensors r) = Thrown e q
        \<longrightarrow> e = DangerousField
            \<and> Rover_execute r (pre @ c # rest) = Returned (r_pre\<lparr>position := q, stopped := True\<rparr>)
            \<and> (a \<in> {RotateLeft, RotateRight, MoveForward, MoveBackward} \<longrightarrow> q = position r_pre))"
proof (intro conjI impI)
  assume l: "landed r"
  let ?r0 = "r\<lparr>stopped := False\<rparr>"
  from Rover_execute_returns [OF l, of cl] obtain r' where
    r': "Rover_execute r cl = Returned r'" "landed r'"
        "commands r' = commands r" "sensors r' = sensors r"
    by blast
  have "\<not> stopped r'
      \<or> (\<exists>pre c rest r_pre. cl = pre @ c # rest \<and> Rover_execute r pre = Returned r_pre
            \<and> \<not> stopped r_pre
            \<and> (commands r c = None
                 \<or> (\<exists>a q. commands r c = Some a
                       \<and> Action_execute a (position r_pre) (sensors r) = Thrown DangerousField q)))"
  proof -
    have "\<not> stopped ?r0" by simp
    from execute_loop_halts [OF this, of cl] show ?thesis
    proof
      assume "\<exists>r''. execute_loop ?r0 cl = Returned r'' \<and> \<not> stopped r''"
      then obtain r'' where "execute_loop ?r0 cl = Returned r''" and "\<not> stopped r''"
        by blast
      with l r'(1) show ?thesis by (simp add: Rover_execute_def)
    next
      assume "\<exists>pre c rest r_pre. cl = pre @ c # rest \<and> execute_loop ?r0 pre = Returned r_pre
          \<and> \<not> stopped r_pre
          \<and> (commands ?r0 c = None
               \<or> (\<exists>a q. commands ?r0 c = Some a
                     \<and> Action_execute a (position r_pre) (sensors ?r0) = Thrown DangerousField q))"
      then obtain pre c rest r_pre where
        cl: "cl = pre @ c # rest" and pre: "execute_loop ?r0 pre = Returned r_pre \<and> \<not> stopped r_pre"
        and halt: "commands r c = None
               \<or> (\<exists>a q. commands r c = Some a
                     \<and> Action_execute a (position r_pre) (sensors r) = Thrown DangerousField q)"
        by auto
      from pre Rover_execute_running [OF l, of pre r_pre]
      have "Rover_execute r pre = Returned r_pre \<and> \<not> stopped r_pre" by blast
      with cl halt show ?thesis by blast
    qed
  qed
  with r' show "\<exists>r'. Rover_execute r cl = Returned r' \<and> landed r'
       \<and> commands r' = commands r \<and> sensors r' = sensors r
       \<and> (\<not> stopped r'
           \<or> (\<exists>pre c rest r_pre. cl = pre @ c # rest \<and> Rover_execute r pre = Returned r_pre
                 \<and> \<not> stopped r_pre
                 \<and> (commands r c = None
                      \<or> (\<exists>a q. commands r c = Some a
                            \<and> Action_execute a (position r_pre) (sensors r) = Thrown DangerousField q))))"
    by blast
next
  assume "landed r"
  then show "Rover_execute r [] = Returned (r\<lparr>stopped := False\<rparr>)"
    by (simp add: Rover_execute_def)
next
  assume l: "landed r"
    and h: "Rover_execute r pre = Returned r_pre \<and> \<not> stopped r_pre \<and> commands r c = Some a
        \<and> Action_execute a (position r_pre) (sensors r) = Returned p_new"
  from h Rover_execute_same_tables [of r pre r_pre]
  have "execute_loop r_pre [c] = Returned (r_pre\<lparr>position := p_new\<rparr>)" by simp
  with h Rover_execute_step [OF l, of pre r_pre "[c]"]
  show "Rover_execute r (pre @ [c]) = Returned (r_pre\<lparr>position := p_new\<rparr>)" by simp
next
  assume l: "landed r"
    and h: "Rover_execute r pre = Returned r_pre \<and> \<not> stopped r_pre \<and> commands r c = None"
  from h Rover_execute_same_tables [of r pre r_pre]
  have "execute_loop r_pre (c # rest) = Returned (r_pre\<lparr>stopped := True\<rparr>)" by simp
  with h Rover_execute_step [OF l, of pre r_pre "c # rest"]
  show "Rover_execute r (pre @ c # rest) = Returned (r_pre\<lparr>stopped := True\<rparr>)" by simp
next
  assume l: "landed r"
    and h: "Rover_execute r pre = Returned r_pre \<and> \<not> stopped r_pre \<and> commands r c = Some a
        \<and> Action_execute a (position r_pre) (sensors r) = Thrown e q"
  from h show e: "e = DangerousField" by (blast dest: throws_DangerousField(1))
  from h e Rover_execute_same_tables [of r pre r_pre]
  have "execute_loop r_pre (c # rest) = Thrown DangerousField (r_pre\<lparr>position := q\<rparr>)" by simp
  with h Rover_execute_step [OF l, of pre r_pre "c # rest"]
  show "Rover_execute r (pre @ c # rest) = Returned (r_pre\<lparr>position := q, stopped := True\<rparr>)"
    by simp
  assume "a \<in> {RotateLeft, RotateRight, MoveForward, MoveBackward}"
  with h leaf_throw_unchanged [of a "position r_pre" "sensors r" e q] show "q = position r_pre"
    by simp
qed

theorem Rover_execute_landed_witness:
  "Rover_execute tandem_rover ''FFF''
     = Returned (tandem_rover\<lparr>position := \<lparr>coordinates = Coordinates 1 0, direction = EAST\<rparr>,
          stopped := True\<rparr>)
   \<and> Rover_execute tandem_rover ''FXF''
     = Returned (tandem_rover\<lparr>position := \<lparr>coordinates = Coordinates 0 0, direction = EAST\<rparr>,
          stopped := True\<rparr>)
   \<and> Rover_execute tandem_rover ''F''
     = Returned (tandem_rover\<lparr>position := \<lparr>coordinates = Coordinates 0 0, direction = EAST\<rparr>\<rparr>)
   \<and> Rover_execute tandem_rover ''FUF''
     = Returned (tandem_rover\<lparr>position := \<lparr>coordinates = Coordinates 1 0, direction = EAST\<rparr>,
          stopped := True\<rparr>)"
proof -
  let ?p0 = "\<lparr>coordinates = Coordinates 0 0, direction = EAST\<rparr>"
  let ?p1 = "\<lparr>coordinates = Coordinates 1 0, direction = EAST\<rparr>"
  have l: "landed tandem_rover"
    by (simp add: tandem_defs)
  have start: "Rover_execute tandem_rover [] = Returned tandem_rover \<and> \<not> stopped tandem_rover"
    by (simp add: tandem_defs)
  have F: "commands tandem_rover CHR ''F'' = Some MoveForward"
    and U: "commands tandem_rover CHR ''U'' = Some (Compose [MoveForward, MoveForward])"
    and X: "commands tandem_rover CHR ''X'' = None"
    by (simp_all add: tandem_defs)
  have step1: "Action_execute MoveForward (position tandem_rover) (sensors tandem_rover) = Returned ?p0"
    by (simp add: tandem_defs)
  from start F step1
    Rover_execute_landed [OF l, where pre = "[]" and r_pre = tandem_rover and c = "CHR ''F''"
      and a = MoveForward and p_new = ?p0]
  have one: "Rover_execute tandem_rover ''F'' = Returned (tandem_rover\<lparr>position := ?p0\<rparr>)"
    by simp
  have run1: "\<not> stopped (tandem_rover\<lparr>position := ?p0\<rparr>)"
    by (simp add: tandem_defs)
  have step2: "Action_execute MoveForward ?p0 (sensors tandem_rover) = Returned ?p1"
    by (simp add: tandem_defs)
  from one run1 F step2
    Rover_execute_landed [OF l, where pre = "''F''" and r_pre = "tandem_rover\<lparr>position := ?p0\<rparr>"
      and c = "CHR ''F''" and a = MoveForward and p_new = ?p1]
  have two: "Rover_execute tandem_rover ''FF'' = Returned (tandem_rover\<lparr>position := ?p1\<rparr>)"
    by simp
  have run2: "\<not> stopped (tandem_rover\<lparr>position := ?p1\<rparr>)"
    by (simp add: tandem_defs)
  have step3: "Action_execute MoveForward ?p1 (sensors tandem_rover) = Thrown DangerousField ?p1"
    by (simp add: tandem_defs)
  from two run2 F step3
    Rover_execute_landed [OF l, where pre = "''FF''" and r_pre = "tandem_rover\<lparr>position := ?p1\<rparr>"
      and c = "CHR ''F''" and a = MoveForward and e = DangerousField and q = ?p1 and rest = "[]"]
  have leaf: "Rover_execute tandem_rover ''FFF''
      = Returned (tandem_rover\<lparr>position := ?p1, stopped := True\<rparr>)"
    by simp
  from one run1 X
    Rover_execute_landed [OF l, where pre = "''F''" and r_pre = "tandem_rover\<lparr>position := ?p0\<rparr>"
      and c = "CHR ''X''" and rest = "''F''"]
  have unbound: "Rover_execute tandem_rover ''FXF''
      = Returned (tandem_rover\<lparr>position := ?p0, stopped := True\<rparr>)"
    by simp
  have stepU: "Action_execute (Compose [MoveForward, MoveForward]) ?p0 (sensors tandem_rover)
      = Thrown DangerousField ?p1"
    by (simp add: tandem_defs)
  from one run1 U stepU
    Rover_execute_landed [OF l, where pre = "''F''" and r_pre = "tandem_rover\<lparr>position := ?p0\<rparr>"
      and c = "CHR ''U''" and a = "Compose [MoveForward, MoveForward]" and e = DangerousField
      and q = ?p1 and rest = "''F''"]
  have composite: "Rover_execute tandem_rover ''FUF''
      = Returned (tandem_rover\<lparr>position := ?p1, stopped := True\<rparr>)"
    by simp
  from leaf unbound one composite show ?thesis by simp
qed

text \<open>
  Claim C1 as stated, with the rover ending exactly at the position produced by the
  last successfully applied command, does not hold when the failing command is bound
  to a \<open>Compose\<close>. The rover lands at \<open>(-1, 0) EAST\<close>, the field \<open>x = 2\<close> is dangerous
  and \<open>U\<close> is two forward moves. After \<open>F\<close> the rover is at \<open>(0, 0) EAST\<close>; \<open>U\<close> then
  fails at its second move, and the rover ends stopped at \<open>(1, 0) EAST\<close>.
\<close>

theorem Rover_execute_position_counterexample:
  "Rover_execute tandem_rover ''F''
     = Returned (tandem_rover\<lparr>position := \<lparr>coordinates = Coordinates 0 0, direction = EAST\<rparr>\<rparr>)
   \<and> commands tandem_rover CHR ''U'' = Some (Compose [MoveForward, MoveForward])
   \<and> Action_execute (Compose [MoveForward, MoveForward])
        \<lparr>coordinates = Coordinates 0 0, direction = EAST\<rparr> (sensors tandem_rover)
       = Thrown DangerousField \<lparr>coordinates = Coordinates 1 0, direction = EAST\<rparr>
   \<and> Rover_execute tandem_rover ''FU''
       = Returned (tandem_rover\<lparr>stopped := True,
            position := \<lparr>coordinates = Coordinates 1 0, direction = EAST\<rparr>\<rparr>)"
  by (simp add: tandem_defs)

text \<open>
  Claim C3. On a rover that has not landed, \<open>execute\<close> throws \<open>RoverDidNotLand\<close> to
  its caller for every command string, and the rover is left exactly as it was:
  \<open>landed\<close>, \<open>stopped\<close>, \<open>position\<close>, \<open>commands\<close> and \<open>sensors\<close>. A rover on which
  \<open>land\<close> was never called, whatever calls of \<open>execute\<close> it has seen, is such a rover,
  still in the state its constructor gave it.
\<close>

theorem Rover_execute_not_landed:
  "(\<not> landed r \<longrightarrow> Rover_execute r command_list = Thrown RoverDidNotLand r)
   \<and> (list_all is_Execute calls \<longrightarrow>
        Rover_calls (Rover_new cmds sens) calls = Rover_new cmds sens
        \<and> Rover_execute (Rover_calls (Rover_new cmds sens) calls) command_list
            = Thrown RoverDidNotLand (Rover_new cmds sens))"
proof (intro conjI impI)
  assume "\<not> landed r"
  then show "Rover_execute r command_list = Thrown RoverDidNotLand r"
    by (simp add: Rover_execute_def)
next
  assume "list_all is_Execute calls"
  then show "Rover_calls (Rover_new cmds sens) calls = Rover_new cmds sens"
    by (rule never_landed)
next
  assume "list_all is_Execute calls"
  then have "Rover_calls (Rover_new cmds sens) calls = Rover_new cmds sens"
    by (rule never_landed)
  then show "Rover_execute (Rover_calls (Rover_new cmds sens) calls) command_list
      = Thrown RoverDidNotLand (Rover_new cmds sens)"
    by (simp add: Rover_execute_def Rover_new_def)
qed

theorem Rover_execute_not_landed_witness:
  "Rover_execute example_rover ''FXB'' = Thrown RoverDidNotLand example_rover
   \<and> Rover_calls (Rover_new Map.empty []) [Execute ''F'', Execute []] = Rover_new Map.empty []
   \<and> Rover_execute (Rover_calls (Rover_new Map.empty []) [Execute ''F'', Execute []]) ''FXB''
       = Thrown RoverDidNotLand (Rover_new Map.empty [])"
proof -
  have h1: "\<not> landed example_rover"
    by (simp add: example_rover_def Rover_new_def)
  have h2: "list_all is_Execute [Execute ''F'', Execute []]"
    by simp
  from h1 h2
    Rover_execute_not_landed [of example_rover "''FXB''" "[Execute ''F'', Execute []]" Map.empty "[]"]
  show ?thesis by blast
qed

text \<open>
  Claim C8. Printing a rover writes \<open>unknown\<close> when it has not landed; when it has,
  it writes the coordinates in parentheses, separated by a comma and a space, then a
  space and the name of the direction, and then \<open> stopped\<close> exactly when the flag
  \<open>stopped\<close> is set. Printing does not change the rover, so printing it again writes
  the same text again.
\<close>

theorem Rover_print_format:
  "Rover_print os r = os @
     (if \<not> landed r then ''unknown''
      else ''('' @ decimal_int (sint (coord_x (coordinates (position r)))) @ '', ''
           @ decimal_int (sint (coord_y (coordinates (position r)))) @ '') ''
           @ get_name (direction (position r))
           @ (if stopped r then '' stopped'' else []))
   \<and> get_name NORTH = ''NORTH'' \<and> get_name EAST = ''EAST''
   \<and> get_name SOUTH = ''SOUTH'' \<and> get_name WEST = ''WEST''
   \<and> Rover_print (Rover_print os r) r = os @ get_string_in_ostream r @ get_string_in_ostream r"
proof -
  have twice: "Rover_print (Rover_print os r) r = os @ get_string_in_ostream r @ get_string_in_ostream r"
    unfolding get_string_in_ostream_def
    by (subst (1 2 3 4) Rover_print_eq) simp
  from Rover_print_eq [of os r] twice show ?thesis by simp
qed

theorem Rover_print_format_witness:
  "get_string_in_ostream
     \<lparr>landed = True, stopped = True,
      position = \<lparr>coordinates = Coordinates (- 3) 0, direction = WEST\<rparr>,
      commands = Map.empty, sensors = []\<rparr> = ''(-3, 0) WEST stopped''"
  using Rover_print_format [of "[]"
     "\<lparr>landed = True, stopped = True,
      position = \<lparr>coordinates = Coordinates (- 3) 0, direction = WEST\<rparr>,
      commands = Map.empty, sensors = []\<rparr>"]
  by (simp add: get_string_in_ostream_def decimal_int_def)

text \<open>
  Claim C10. \<open>landed\<close> is false in a new rover, true after \<open>land\<close>, and unchanged by
  \<open>execute\<close>, whether it returns or throws. So after any sequence of calls the rover
  has landed exactly when it had before or one of the calls was \<open>land\<close>; once \<open>land\<close>
  has been called the rover stays landed, and what it prints is never \<open>unknown\<close>.
\<close>

theorem landed_monotone:
  "\<not> landed (Rover_new cmds sens)
   \<and> landed (Rover_land r c d)
   \<and> landed (state_after (Rover_execute r cl)) = landed r
   \<and> landed (Rover_calls r calls) = (landed r \<or> (\<exists>c \<in> set calls. is_Land c))
   \<and> landed (Rover_calls r (calls1 @ Land c d # calls2))
   \<and> get_string_in_ostream (Rover_calls r (calls1 @ Land c d # calls2)) \<noteq> ''unknown''"
proof -
  have after: "landed (Rover_calls r (calls1 @ Land c d # calls2))"
    by (simp add: Rover_calls_landed)
  then have shown: "get_string_in_ostream (Rover_calls r (calls1 @ Land c d # calls2)) \<noteq> ''unknown''"
    by (simp add: unknown_iff)
  have "\<not> landed (Rover_new cmds sens)" and "landed (Rover_land r c d)"
    by (simp_all add: Rover_new_def Rover_land_def)
  with after shown Rover_execute_fields [of r cl] Rover_calls_landed [of r calls]
  show ?thesis by simp
qed

theorem landed_monotone_witness:
  "landed (Rover_calls example_rover [Execute ''F'', Land (Coordinates 0 0) EAST, Execute ''FXFFF''])
   \<and> get_string_in_ostream
        (Rover_calls example_rover [Execute ''F'', Land (Coordinates 0 0) EAST, Execute ''FXFFF''])
       \<noteq> ''unknown''"
  using landed_monotone [of Map.empty "[]" example_rover "Coordinates 0 0" EAST "[]" "[]"
      "[Execute ''F'']" "[Execute ''FXFFF'']"]
  by simp

end
